theory Spec2Isabelle
  imports Main "HOL-Library.Word"
begin

section \<open>Python values, exceptions and awaiting\<close>

type_synonym byte = "8 word"

text \<open>
  The exceptions the modelled code can raise. The first four are the library's own
  (\<open>qpython.qconnection\<close>, \<open>qpython.qwriter\<close>, \<open>qpython.qreader\<close>); the others are
  Python's built-in exceptions, raised by the interpreter or by \<open>asyncio\<close>.
\<close>

datatype error =
    QConnectionException
  | QAuthenticationException
  | QWriterException
  | QReaderException
  | TypeError
  | AttributeError
  | ValueError
  | StructError
  | OSError
  | ConnectionResetError
  | UnicodeEncodeError
  | UnboundLocalError
  | CodecError

text \<open>The Python values that travel through the connection's interface.\<close>

datatype pyobj =
    PyNone
  | PyStr string
  | PyBytes "byte list"
  | PyInt int
  | PyList "pyobj list"
  | QException string

text \<open>
  What the operand of an \<open>await\<close> expression evaluates to: a plain value, which is not
  awaitable, or an awaitable that completes with a result. \<open>await\<close> on a plain value
  raises \<open>TypeError\<close> (\<open>object NoneType can't be used in 'await' expression\<close>).
\<close>

datatype 'a awaited = Plain pyobj | Completes 'a

fun await :: "'a awaited \<Rightarrow> error + 'a" where
  "await (Plain v) = Inl TypeError"
| "await (Completes x) = Inr x"

section \<open>The asyncio streams the connection runs on\<close>

text \<open>
  \<open>asyncio.open_connection\<close> returns a \<open>StreamReader\<close> and a \<open>StreamWriter\<close> over one
  transport. A transport records the bytes handed to \<open>StreamWriter.write\<close>, the chunks
  the peer delivers (in order of arrival; when none is left the peer has closed its side,
  and a read returns the empty byte string), and whether \<open>close()\<close> was called on it.
  The transports live in a store, a handle being an index into it, because the frame
  writer and the connection hold the same \<open>StreamWriter\<close> object. \<open>network\<close> scripts
  the outcomes of the coming calls of \<open>asyncio.open_connection\<close>: \<open>None\<close> when the
  transport cannot be established, \<open>Some chunks\<close> when a peer accepts and will deliver
  \<open>chunks\<close>.
\<close>

record transport =
  sent :: "byte list"
  incoming :: "byte list list"
  closing :: bool

record world =
  transports :: "transport list"
  network :: "byte list list option list"

definition open_connection :: "world \<Rightarrow> (error + nat) \<times> world" where
  "open_connection w =
     (case network w of
        [] \<Rightarrow> (Inl OSError, w)
      | None # rest \<Rightarrow> (Inl OSError, w\<lparr>network := rest\<rparr>)
      | Some chunks # rest \<Rightarrow>
          (Inr (length (transports w)),
           w\<lparr>transports := transports w @ [\<lparr>sent = [], incoming = chunks, closing = False\<rparr>],
             network := rest\<rparr>))"

text \<open>
  \<open>StreamWriter.write(data)\<close>: the bytes are queued on the transport; a transport that
  is closing drops them.
\<close>

definition stream_write :: "nat \<Rightarrow> byte list \<Rightarrow> world \<Rightarrow> world" where
  "stream_write h bs w =
     (if h < length (transports w) then
        (let t = transports w ! h in
         if closing t then w
         else w\<lparr>transports := (transports w)[h := t\<lparr>sent := sent t @ bs\<rparr>]\<rparr>)
      else w)"

text \<open>\<open>StreamWriter.drain()\<close> raises \<open>ConnectionResetError\<close> once the connection is lost.\<close>

definition drain :: "nat \<Rightarrow> world \<Rightarrow> error + unit" where
  "drain h w =
     (if h < length (transports w) then
        (if closing (transports w ! h) then Inl ConnectionResetError else Inr ())
      else Inr ())"

text \<open>
  \<open>StreamWriter.close()\<close> closes the transport and returns \<open>None\<close>: it is a plain
  method, not a coroutine. \<open>StreamWriter.wait_closed()\<close> is the coroutine to await.
\<close>

definition stream_close :: "nat \<Rightarrow> world \<Rightarrow> unit awaited \<times> world" where
  "stream_close h w =
     (Plain PyNone,
      if h < length (transports w) then
        w\<lparr>transports := (transports w)[h := (transports w ! h)\<lparr>closing := True\<rparr>]\<rparr>
      else w)"

definition wait_closed :: "nat \<Rightarrow> world \<Rightarrow> unit awaited \<times> world" where
  "wait_closed h w = (Completes (), w)"

text \<open>
  \<open>StreamReader.read(n)\<close>: \<open>n = 0\<close> returns the empty byte string at once; a negative
  \<open>n\<close> reads until the peer closes; a positive \<open>n\<close> waits until at least one byte has
  arrived and returns at most \<open>n\<close> of the bytes that have, so fewer than \<open>n\<close> when the
  chunk that arrived is shorter. The empty byte string means the peer closed.
\<close>

fun read_chunks :: "int \<Rightarrow> byte list list \<Rightarrow> byte list \<times> byte list list" where
  "read_chunks n [] = ([], [])"
| "read_chunks n (c # cs) =
     (if n = 0 then ([], c # cs)
      else if n < 0 then (concat (c # cs), [])
      else if c = [] then read_chunks n cs
      else (take (nat n) c, drop (nat n) c # cs))"

definition stream_read :: "int \<Rightarrow> nat \<Rightarrow> world \<Rightarrow> byte list \<times> world" where
  "stream_read n h w =
     (if h < length (transports w) then
        (case read_chunks n (incoming (transports w ! h)) of
           (data, rest) \<Rightarrow>
             (data, w\<lparr>transports := (transports w)[h := (transports w ! h)\<lparr>incoming := rest\<rparr>]\<rparr>))
      else ([], w))"

section \<open>The connection\<close>

text \<open>
  The keyword options of the engine: \<open>raw\<close> asks for the undecoded payload.
\<close>

record options =
  raw :: bool

text \<open>
  Modelled from the spec: the frame writer and the frame reader as objects (their
  constructors are in the base classes \<open>Writer\<close> and \<open>Reader\<close>, not among the modelled
  files). Each keeps the stream it was given, which \<open>QWriter.write\<close> and
  \<open>QReader._read_bytes\<close> read as \<open>self._stream\<close>; the writer keeps the protocol
  version; the reader has a byte buffer (a byte sequence, a cursor and a byte order), the
  flag \<open>_is_native\<close> and the options of the last call.
\<close>

record qwriter =
  wr_stream :: "nat option"
  wr_protocol_version :: "int option"

datatype endian = Little | Big

record bytes_buffer =
  buf_data :: "byte list"
  position :: nat
  endianness :: endian

record qreader =
  rd_stream :: "nat option"
  buffer :: bytes_buffer
  is_native :: bool
  rd_options :: options

text \<open>
  The connection object. \<open>encoding\<close> is the text codec named by \<open>_encoding\<close>, as the
  function \<open>str.encode\<close> computes with it (\<open>Inl\<close> when a character has no encoding).
  \<open>MAX_PROTOCOL_VERSION\<close> is a constant of the base class \<open>Connection\<close>
  (\<open>qpython.qconnection\<close>), whose value the model takes as a field.
  \<open>s_reader\<close> and \<open>s_writer\<close> are the stream handles, \<open>writer\<close> and \<open>reader\<close> the
  frame writer and frame reader bound by \<open>open\<close>. Which peer answers is scripted by the
  world, whatever \<open>host\<close> and \<open>port\<close> are.
\<close>

record connection =
  host :: "string option"
  port :: int
  username :: "string option"
  password :: "string option"
  encoding :: "string \<Rightarrow> error + byte list"
  MAX_PROTOCOL_VERSION :: int
  protocol_version :: "int option"
  conn_options :: options
  s_reader :: "nat option"
  s_writer :: "nat option"
  writer :: "qwriter option"
  reader :: "qreader option"

text \<open>Python's truth value of an optional string: \<open>None\<close> and the empty string are false.\<close>

definition truthy :: "string option \<Rightarrow> bool" where
  "truthy s = (case s of None \<Rightarrow> False | Some v \<Rightarrow> v \<noteq> [])"

definition or_empty :: "string option \<Rightarrow> string" where
  "or_empty s = (case s of None \<Rightarrow> [] | Some v \<Rightarrow> (if v \<noteq> [] then v else []))"

text \<open>\<open>bytes([...])\<close> raises \<open>ValueError\<close> unless every element is in \<open>range(256)\<close>.\<close>

definition bytes_of :: "int list \<Rightarrow> error + byte list" where
  "bytes_of xs =
     (if list_all (\<lambda>i. 0 \<le> i \<and> i < 256) xs then Inr (map word_of_int xs) else Inl ValueError)"

text \<open>\<open>struct.unpack('B', response)[0]\<close>: the value of a byte string of length one.\<close>

definition unpack_B :: "byte list \<Rightarrow> error + int" where
  "unpack_B bs = (case bs of [b] \<Rightarrow> Inr (uint b) | _ \<Rightarrow> Inl StructError)"

text \<open>\<open>is_connected\<close>: \<open>True if self._s_writer else False\<close>.\<close>

definition is_connected :: "connection \<Rightarrow> bool" where
  "is_connected c = (s_writer c \<noteq> None)"

text \<open>
  \<open>_init_socket\<close>: the two handles are whatever \<open>asyncio.open_connection\<close> returns; when
  it raises, both are reset to \<open>None\<close> and the exception is raised again.
\<close>

definition init_socket :: "connection \<Rightarrow> world \<Rightarrow> (error + unit) \<times> connection \<times> world" where
  "init_socket c w =
     (case open_connection w of
        (Inl e, w') \<Rightarrow> (Inl e, c\<lparr>s_reader := None, s_writer := None\<rparr>, w')
      | (Inr h, w') \<Rightarrow> (Inr (), c\<lparr>s_reader := Some h, s_writer := Some h\<rparr>, w'))"

text \<open>
  \<open>close\<close>: when a writer handle is present, \<open>self._s_writer.close()\<close> and then
  \<open>await self._s_writer.wait_closed()\<close>. Nothing is assigned to the connection's fields.
\<close>

definition close :: "connection \<Rightarrow> world \<Rightarrow> (error + unit) \<times> connection \<times> world" where
  "close c w =
     (case s_writer c of
        None \<Rightarrow> (Inr (), c, w)
      | Some h \<Rightarrow>
          (case stream_close h w of
             (_, w1) \<Rightarrow>
               (case wait_closed h w1 of
                  (a, w2) \<Rightarrow>
                    (case await a of
                       Inl e \<Rightarrow> (Inl e, c, w2)
                     | Inr _ \<Rightarrow> (Inr (), c, w2)))))"

text \<open>
  \<open>_initialize\<close>, lines 132 to 140: the branch taken when the first response is not one
  byte long. \<open>await self._s_writer.close()\<close> calls \<open>close()\<close> and awaits what it
  returns; then the socket is initialised again, the credentials are written with a single
  zero byte, and one byte is read; when that is not one byte long either, the connection is
  closed and \<open>QAuthenticationException\<close> is raised. The branch returns the response.
\<close>

definition initialize_retry ::
  "byte list \<Rightarrow> connection \<Rightarrow> world \<Rightarrow> (error + byte list) \<times> connection \<times> world" where
  "initialize_retry credentials c w =
     (case s_writer c of
        None \<Rightarrow> (Inl AttributeError, c, w)
      | Some wh \<Rightarrow>
          (case stream_close wh w of
             (a, w1) \<Rightarrow>
               (case await a of
                  Inl e \<Rightarrow> (Inl e, c, w1)
                | Inr _ \<Rightarrow>
                    (case init_socket c w1 of
                       (Inl e, c2, w2) \<Rightarrow> (Inl e, c2, w2)
                     | (Inr _, c2, w2) \<Rightarrow>
                         (case s_writer c2 of
                            None \<Rightarrow> (Inl AttributeError, c2, w2)
                          | Some wh2 \<Rightarrow>
                              (let w3 = stream_write wh2 (credentials @ [0]) w2 in
                               case drain wh2 w3 of
                                 Inl e \<Rightarrow> (Inl e, c2, w3)
                               | Inr _ \<Rightarrow>
                                   (case s_reader c2 of
                                      None \<Rightarrow> (Inl AttributeError, c2, w3)
                                    | Some rh2 \<Rightarrow>
                                        (case stream_read 1 rh2 w3 of
                                           (response, w4) \<Rightarrow>
                                             if length response \<noteq> 1 then
                                               (case close c2 w4 of
                                                  (Inl e, c5, w5) \<Rightarrow> (Inl e, c5, w5)
                                                | (Inr _, c5, w5) \<Rightarrow>
                                                    (Inl QAuthenticationException, c5, w5))
                                             else (Inr response, c2, w4)))))))))"

text \<open>
  \<open>_initialize\<close>, line 142: \<open>_protocol_version\<close> becomes the smaller of the response
  byte and \<open>MAX_PROTOCOL_VERSION\<close>.
\<close>

definition set_protocol_version ::
  "byte list \<Rightarrow> connection \<Rightarrow> world \<Rightarrow> (error + unit) \<times> connection \<times> world" where
  "set_protocol_version response c w =
     (case unpack_B response of
        Inl e \<Rightarrow> (Inl e, c, w)
      | Inr v \<Rightarrow> (Inr (), c\<lparr>protocol_version := Some (min v (MAX_PROTOCOL_VERSION c))\<rparr>, w))"

text \<open>
  \<open>_initialize\<close>: the credentials \<open>username:password\<close> are encoded, written with the
  bytes \<open>[MAX_PROTOCOL_VERSION, 0]\<close> and flushed, and one byte is read.
\<close>

definition initialize :: "connection \<Rightarrow> world \<Rightarrow> (error + unit) \<times> connection \<times> world" where
  "initialize c w =
     (case encoding c (or_empty (username c) @ '':'' @ or_empty (password c)) of
        Inl e \<Rightarrow> (Inl e, c, w)
      | Inr credentials \<Rightarrow>
          (case s_writer c of
             None \<Rightarrow> (Inl AttributeError, c, w)
           | Some wh \<Rightarrow>
               (case bytes_of [MAX_PROTOCOL_VERSION c, 0] of
                  Inl e \<Rightarrow> (Inl e, c, w)
                | Inr version \<Rightarrow>
                    (let w1 = stream_write wh (credentials @ version) w in
                     case drain wh w1 of
                       Inl e \<Rightarrow> (Inl e, c, w1)
                     | Inr _ \<Rightarrow>
                         (case s_reader c of
                            None \<Rightarrow> (Inl AttributeError, c, w1)
                          | Some rh \<Rightarrow>
                              (case stream_read 1 rh w1 of
                                 (response, w2) \<Rightarrow>
                                   if length response \<noteq> 1 then
                                     (case initialize_retry credentials c w2 of
                                        (Inl e, c3, w3) \<Rightarrow> (Inl e, c3, w3)
                                      | (Inr response2, c3, w3) \<Rightarrow>
                                          set_protocol_version response2 c3 w3)
                                   else set_protocol_version response c w2))))))"

text \<open>
  \<open>open\<close>: nothing happens when a writer handle is present. Otherwise the host must be
  set, the socket is initialised, the handshake is performed, and the frame writer and the
  frame reader are bound to the two handles. The reader's buffer starts empty, in the
  host's byte order.
\<close>

definition new_reader :: "bool \<Rightarrow> nat option \<Rightarrow> options \<Rightarrow> qreader" where
  "new_reader little_host stream opts =
     \<lparr>rd_stream = stream,
      buffer = \<lparr>buf_data = [], position = 0,
                endianness = (if little_host then Little else Big)\<rparr>,
      is_native = False,
      rd_options = opts\<rparr>"

definition open_conn ::
  "bool \<Rightarrow> connection \<Rightarrow> world \<Rightarrow> (error + unit) \<times> connection \<times> world" where
  "open_conn little_host c w =
     (if s_writer c = None then
        (if truthy (host c) then
           (case init_socket c w of
              (Inl e, c1, w1) \<Rightarrow> (Inl e, c1, w1)
            | (Inr _, c1, w1) \<Rightarrow>
                (case initialize c1 w1 of
                   (Inl e, c2, w2) \<Rightarrow> (Inl e, c2, w2)
                 | (Inr _, c2, w2) \<Rightarrow>
                     (Inr (),
                      c2\<lparr>writer := Some \<lparr>wr_stream = s_writer c2,
                                           wr_protocol_version = protocol_version c2\<rparr>,
                         reader := Some (new_reader little_host (s_reader c2) (conn_options c2))\<rparr>,
                      w2)))
         else (Inl QConnectionException, c, w))
      else (Inr (), c, w))"

section \<open>The frame reader\<close>

text \<open>
  The collaborators of the protocol engine that the repository keeps outside the modelled
  files, taken as parameters: whether the host is little-endian (\<open>sys.byteorder\<close>);
  whether the buffer's \<open>get_byte\<close> reads a signed byte (struct format \<open>b\<close>) or an
  unsigned one (\<open>B\<close>); \<open>Writer.write\<close> of the base class, which builds the frame for a
  value, a message type and the keyword options it was given (\<open>None\<close> when it was given
  none); \<open>Reader._read_object\<close>, the value decoder, which reads the wrapped buffer; and
  \<open>uncompress\<close>, the compression kernel.
\<close>

record env =
  little_host :: bool
  signed_byte :: bool
  serialize :: "int option \<Rightarrow> pyobj \<Rightarrow> int \<Rightarrow> options option \<Rightarrow> error + byte list"
  read_object :: "bytes_buffer \<Rightarrow> options \<Rightarrow> error + pyobj"
  uncompress :: "byte list \<Rightarrow> int \<Rightarrow> error + byte list"

record qmessage =
  msg_data :: pyobj
  msg_type :: int
  msg_size :: int
  msg_compression_mode :: int

text \<open>
  Modelled from the spec: the constants of \<open>MessageType\<close> (\<open>qpython.qconnection\<close>, not
  among the modelled files), by the wire format: message kind 0 is ASYNC, 1 is SYNC, 2 is
  RESPONSE.
\<close>

definition ASYNC :: int where
  "ASYNC = 0"

definition SYNC :: int where
  "SYNC = 1"

definition RESPONSE :: int where
  "RESPONSE = 2"

text \<open>The value of a byte string as an integer, in a byte order, unsigned and signed.\<close>

fun le_value :: "byte list \<Rightarrow> int" where
  "le_value [] = 0"
| "le_value (b # bs) = uint b + 256 * le_value bs"

definition unsigned_value :: "endian \<Rightarrow> byte list \<Rightarrow> int" where
  "unsigned_value e bs = le_value (case e of Little \<Rightarrow> bs | Big \<Rightarrow> rev bs)"

definition signed_value :: "endian \<Rightarrow> byte list \<Rightarrow> int" where
  "signed_value e bs =
     (let u = unsigned_value e bs in
      if u < 2 ^ (8 * length bs - 1) then u else u - 2 ^ (8 * length bs))"

text \<open>
  Modelled from the spec: the reader's byte buffer (class \<open>BytesBuffer\<close> of
  \<open>qpython.qreader\<close>, not among the modelled files), which the spec describes as a
  byte sequence with a cursor. \<open>wrap\<close> takes a new byte sequence and puts the cursor at
  its start; \<open>buffer_raw n\<close> returns the next \<open>n\<close> bytes and moves the cursor past them,
  and fails when they are not all there; \<open>get_byte\<close>, \<open>get_uint\<close> and \<open>get_long\<close>
  read one byte, an unsigned 4-byte integer and a signed 8-byte integer in the buffer's
  byte order.
\<close>

definition wrap :: "byte list \<Rightarrow> bytes_buffer \<Rightarrow> bytes_buffer" where
  "wrap d b = b\<lparr>buf_data := d, position := 0\<rparr>"

definition buffer_raw :: "int \<Rightarrow> bytes_buffer \<Rightarrow> (error + byte list) \<times> bytes_buffer" where
  "buffer_raw n b =
     (if n < 0 then (Inl QReaderException, b)
      else if length (buf_data b) < position b + nat n then (Inl QReaderException, b)
      else (Inr (take (nat n) (drop (position b) (buf_data b))),
            b\<lparr>position := position b + nat n\<rparr>))"

definition get_byte :: "bool \<Rightarrow> bytes_buffer \<Rightarrow> (error + int) \<times> bytes_buffer" where
  "get_byte is_signed b =
     (case buffer_raw 1 b of
        (Inl e, b1) \<Rightarrow> (Inl e, b1)
      | (Inr bs, b1) \<Rightarrow>
          (Inr (if is_signed then signed_value (endianness b) bs
                else unsigned_value (endianness b) bs), b1))"

definition get_uint :: "bytes_buffer \<Rightarrow> (error + int) \<times> bytes_buffer" where
  "get_uint b =
     (case buffer_raw 4 b of
        (Inl e, b1) \<Rightarrow> (Inl e, b1)
      | (Inr bs, b1) \<Rightarrow> (Inr (unsigned_value (endianness b) bs), b1))"

definition get_long :: "bytes_buffer \<Rightarrow> (error + int) \<times> bytes_buffer" where
  "get_long b =
     (case buffer_raw 8 b of
        (Inl e, b1) \<Rightarrow> (Inl e, b1)
      | (Inr bs, b1) \<Rightarrow> (Inr (signed_value (endianness b) bs), b1))"

text \<open>
  \<open>_read_bytes\<close>: without a stream it raises; a request for no bytes returns the empty
  byte string; otherwise one \<open>read(length)\<close> of the stream is awaited, and an empty
  result raises.
\<close>

definition read_bytes :: "int \<Rightarrow> qreader \<Rightarrow> world \<Rightarrow> (error + byte list) \<times> world" where
  "read_bytes n r w =
     (case rd_stream r of
        None \<Rightarrow> (Inl QReaderException, w)
      | Some h \<Rightarrow>
          (if n = 0 then (Inr [], w)
           else
             (case stream_read n h w of
                (data, w1) \<Rightarrow>
                  if length data = 0 then (Inl QReaderException, w1) else (Inr data, w1))))"

text \<open>
  \<open>read_header\<close>, lines 35 to 39: with a stream, eight bytes are requested and wrapped;
  without one the caller's \<open>source\<close> is wrapped (\<open>None\<close> has no length).
\<close>

definition header_source ::
  "byte list option \<Rightarrow> qreader \<Rightarrow> world \<Rightarrow> (error + bytes_buffer) \<times> world" where
  "header_source source r w =
     (case rd_stream r of
        Some h \<Rightarrow>
          (case read_bytes 8 r w of
             (Inl e, w1) \<Rightarrow> (Inl e, w1)
           | (Inr header, w1) \<Rightarrow> (Inr (wrap header (buffer r)), w1))
      | None \<Rightarrow>
          (case source of
             None \<Rightarrow> (Inl TypeError, w)
           | Some d \<Rightarrow> (Inr (wrap d (buffer r)), w)))"

text \<open>
  \<open>read_header\<close>: the first byte decides the byte order, then come the message type,
  the compression mode, the size extension and the 4-byte size; the size of the message is
  the size field plus the extension shifted left by 32.
\<close>

definition read_header ::
  "env \<Rightarrow> byte list option \<Rightarrow> qreader \<Rightarrow> world \<Rightarrow> (error + qmessage) \<times> qreader \<times> world" where
  "read_header env source r w =
     (case header_source source r w of
        (Inl e, w1) \<Rightarrow> (Inl e, r, w1)
      | (Inr b0, w1) \<Rightarrow>
          (case get_byte (signed_byte env) b0 of
             (Inl e, b1) \<Rightarrow> (Inl e, r\<lparr>buffer := b1\<rparr>, w1)
           | (Inr marker, b1) \<Rightarrow>
               (let b2 = b1\<lparr>endianness := (if marker = 1 then Little else Big)\<rparr>;
                    native = (endianness b2 = (if little_host env then Little else Big))
                in
                case get_byte (signed_byte env) b2 of
                  (Inl e, b3) \<Rightarrow> (Inl e, r\<lparr>buffer := b3, is_native := native\<rparr>, w1)
                | (Inr message_type, b3) \<Rightarrow>
                    (case get_byte (signed_byte env) b3 of
                       (Inl e, b4) \<Rightarrow> (Inl e, r\<lparr>buffer := b4, is_native := native\<rparr>, w1)
                     | (Inr message_compression_mode, b4) \<Rightarrow>
                         (case get_byte (signed_byte env) b4 of
                            (Inl e, b5) \<Rightarrow> (Inl e, r\<lparr>buffer := b5, is_native := native\<rparr>, w1)
                          | (Inr message_size_ext, b5) \<Rightarrow>
                              (case get_uint b5 of
                                 (Inl e, b6) \<Rightarrow>
                                   (Inl e, r\<lparr>buffer := b6, is_native := native\<rparr>, w1)
                               | (Inr message_size, b6) \<Rightarrow>
                                   (Inr \<lparr>msg_data = PyNone,
                                         msg_type = message_type,
                                         msg_size = message_size + push_bit 32 message_size_ext,
                                         msg_compression_mode = message_compression_mode\<rparr>,
                                    r\<lparr>buffer := b6, is_native := native\<rparr>, w1)))))))"

text \<open>
  \<open>read_data\<close>, lines 55 to 67: the branch of a compressed message. The header of the
  compression envelope is 4 bytes long in mode 1 and 8 bytes otherwise; with a stream it
  is requested and wrapped. The uncompressed size is the length field less 8. The
  compressed block of \<open>message_size - (8 + comprHeaderLen)\<close> bytes is requested from the
  stream, or taken from the buffer; then a size that is not positive raises, and
  otherwise the kernel's result is wrapped.
\<close>

definition read_compressed ::
  "env \<Rightarrow> int \<Rightarrow> int \<Rightarrow> qreader \<Rightarrow> world \<Rightarrow> (error + byte list) \<times> qreader \<times> world" where
  "read_compressed env message_size compression_mode r w =
     (let comprHeaderLen = (if compression_mode = 1 then 4 else 8) in
      case (case rd_stream r of
              Some h \<Rightarrow>
                (case read_bytes comprHeaderLen r w of
                   (Inl e, w1) \<Rightarrow> (Inl e, w1)
                 | (Inr envelope, w1) \<Rightarrow> (Inr (wrap envelope (buffer r)), w1))
            | None \<Rightarrow> (Inr (buffer r), w)) of
        (Inl e, w1) \<Rightarrow> (Inl e, r, w1)
      | (Inr b1, w1) \<Rightarrow>
          (case (if compression_mode = 1 then get_uint b1 else get_long b1) of
             (Inl e, b2) \<Rightarrow> (Inl e, r\<lparr>buffer := b2\<rparr>, w1)
           | (Inr field, b2) \<Rightarrow>
               (let uncompressed_size = - 8 + field in
                case (case rd_stream r of
                        Some h \<Rightarrow>
                          (case read_bytes (message_size - (8 + comprHeaderLen)) r w1 of
                             (res, w2) \<Rightarrow> (res, b2, w2))
                      | None \<Rightarrow>
                          (case buffer_raw (message_size - (8 + comprHeaderLen)) b2 of
                             (res, b3) \<Rightarrow> (res, b3, w1))) of
                  (Inl e, b3, w2) \<Rightarrow> (Inl e, r\<lparr>buffer := b3\<rparr>, w2)
                | (Inr compressed_data, b3, w2) \<Rightarrow>
                    (if uncompressed_size \<le> 0 then (Inl QReaderException, r\<lparr>buffer := b3\<rparr>, w2)
                     else
                       (case uncompress env compressed_data uncompressed_size of
                          Inl e \<Rightarrow> (Inl e, r\<lparr>buffer := b3\<rparr>, w2)
                        | Inr raw_data \<Rightarrow> (Inr raw_data, r\<lparr>buffer := wrap raw_data b3\<rparr>, w2))))))"

text \<open>
  \<open>read_data\<close>: \<open>super().read_data\<close> comes first (modelled from the spec: the base
  class, not among the modelled files, keeps the options of the call, which the method
  then reads as \<open>self._options\<close>); a compressed message goes through the branch above; an uncompressed one on a stream is requested as
  \<open>message_size - 8\<close> bytes and wrapped. Without a stream and in raw mode,
  \<open>message_size - 8\<close> bytes of the buffer are the raw data. The result is the raw data
  in raw mode (a variable that no branch has bound when it is \<open>None\<close> here) and the
  decoded value otherwise.
\<close>

definition read_data ::
  "env \<Rightarrow> int \<Rightarrow> int \<Rightarrow> options \<Rightarrow> qreader \<Rightarrow> world \<Rightarrow> (error + pyobj) \<times> qreader \<times> world" where
  "read_data env message_size compression_mode opts r0 w =
     (let r = r0\<lparr>rd_options := opts\<rparr> in
      case (if compression_mode > 0 then
              (case read_compressed env message_size compression_mode r w of
                 (Inl e, r1, w1) \<Rightarrow> (Inl e, r1, w1)
               | (Inr raw_data, r1, w1) \<Rightarrow> (Inr (Some raw_data), r1, w1))
            else if rd_stream r \<noteq> None then
              (case read_bytes (message_size - 8) r w of
                 (Inl e, w1) \<Rightarrow> (Inl e, r, w1)
               | (Inr raw_data, w1) \<Rightarrow>
                   (Inr (Some raw_data), r\<lparr>buffer := wrap raw_data (buffer r)\<rparr>, w1))
            else (Inr None, r, w)) of
        (Inl e, r1, w1) \<Rightarrow> (Inl e, r1, w1)
      | (Inr raw_data, r1, w1) \<Rightarrow>
          (case (if rd_stream r1 = None \<and> raw (rd_options r1) then
                   (case buffer_raw (message_size - 8) (buffer r1) of
                      (Inl e, b) \<Rightarrow> (Inl e, r1\<lparr>buffer := b\<rparr>)
                    | (Inr d, b) \<Rightarrow> (Inr (Some d), r1\<lparr>buffer := b\<rparr>))
                 else (Inr raw_data, r1)) of
             (Inl e, r2) \<Rightarrow> (Inl e, r2, w1)
           | (Inr raw_data2, r2) \<Rightarrow>
               (if raw (rd_options r2) then
                  (case raw_data2 of
                     None \<Rightarrow> (Inl UnboundLocalError, r2, w1)
                   | Some d \<Rightarrow> (Inr (PyBytes d), r2, w1))
                else
                  (case read_object env (buffer r2) (rd_options r2) of
                     Inl e \<Rightarrow> (Inl e, r2, w1)
                   | Inr v \<Rightarrow> (Inr v, r2, w1)))))"

text \<open>\<open>QReader.read\<close>: the header, then the data, stored in the message.\<close>

definition read ::
  "env \<Rightarrow> byte list option \<Rightarrow> options \<Rightarrow> qreader \<Rightarrow> world
     \<Rightarrow> (error + qmessage) \<times> qreader \<times> world" where
  "read env source opts r w =
     (case read_header env source r w of
        (Inl e, r1, w1) \<Rightarrow> (Inl e, r1, w1)
      | (Inr message, r1, w1) \<Rightarrow>
          (case read_data env (msg_size message) (msg_compression_mode message) opts r1 w1 of
             (Inl e, r2, w2) \<Rightarrow> (Inl e, r2, w2)
           | (Inr d, r2, w2) \<Rightarrow> (Inr (message\<lparr>msg_data := d\<rparr>), r2, w2)))"

section \<open>The frame writer\<close>

text \<open>
  \<open>QWriter.write\<close> is a coroutine function: this is its body, which runs when the
  coroutine is awaited. The base class builds the frame; with a stream the frame is
  written and flushed, without one it is returned.
\<close>

definition qwriter_write ::
  "env \<Rightarrow> qwriter \<Rightarrow> pyobj \<Rightarrow> int \<Rightarrow> options option \<Rightarrow> world \<Rightarrow> (error + pyobj) \<times> world" where
  "qwriter_write env wr data message_type kwargs w =
     (case serialize env (wr_protocol_version wr) data message_type kwargs of
        Inl e \<Rightarrow> (Inl e, w)
      | Inr frame \<Rightarrow>
          (case wr_stream wr of
             Some h \<Rightarrow>
               (let w1 = stream_write h frame w in
                case drain h w1 of
                  Inl e \<Rightarrow> (Inl e, w1)
                | Inr _ \<Rightarrow> (Inr PyNone, w1))
           | None \<Rightarrow> (Inr (PyBytes frame), w)))"

section \<open>Queries\<close>

text \<open>
  The keyword options of a call: \<open>raw\<close> when the caller gave it. \<open>union_dict\<close> lays them
  over the connection's own options.
\<close>

definition union_dict :: "options \<Rightarrow> bool option \<Rightarrow> options" where
  "union_dict d kw = (case kw of None \<Rightarrow> d | Some b \<Rightarrow> d\<lparr>raw := b\<rparr>)"

text \<open>
  \<open>query\<close>: the two checks, then the awaited write of the query alone, or of the list
  of the query and its parameters.
\<close>

definition query ::
  "env \<Rightarrow> int \<Rightarrow> string \<Rightarrow> pyobj list \<Rightarrow> bool option \<Rightarrow> connection \<Rightarrow> world
     \<Rightarrow> (error + unit) \<times> connection \<times> world" where
  "query env message_type q parameters kw c w =
     (if s_writer c = None then (Inl QConnectionException, c, w)
      else if parameters \<noteq> [] \<and> length parameters > 8 then (Inl QWriterException, c, w)
      else
        (case writer c of
           None \<Rightarrow> (Inl AttributeError, c, w)
         | Some wr \<Rightarrow>
             (case qwriter_write env wr
                     (if parameters = [] \<or> length parameters = 0 then PyStr q
                      else PyList (PyStr q # parameters))
                     message_type (Some (union_dict (conn_options c) kw)) w of
                (Inl e, w1) \<Rightarrow> (Inl e, c, w1)
              | (Inr _, w1) \<Rightarrow> (Inr (), c, w1))))"

text \<open>\<open>receive\<close>: one message is read; the result is its data alone, or the message.\<close>

datatype received = Data pyobj | Message qmessage

definition receive ::
  "env \<Rightarrow> bool \<Rightarrow> bool option \<Rightarrow> connection \<Rightarrow> world \<Rightarrow> (error + received) \<times> connection \<times> world" where
  "receive env data_only kw c w =
     (case reader c of
        None \<Rightarrow> (Inl AttributeError, c, w)
      | Some r \<Rightarrow>
          (case read env None (union_dict (conn_options c) kw) r w of
             (Inl e, r1, w1) \<Rightarrow> (Inl e, c\<lparr>reader := Some r1\<rparr>, w1)
           | (Inr result, r1, w1) \<Rightarrow>
               (Inr (if data_only then Data (msg_data result) else Message result),
                c\<lparr>reader := Some r1\<rparr>, w1)))"

text \<open>
  \<open>sendSync\<close>: the query is sent with type SYNC and a message is received. A RESPONSE
  gives its data. Otherwise line 242 calls \<open>self._writer.write(...)\<close> without
  \<open>await\<close>: the call makes a coroutine object, whose body does not run, and the
  statement after it raises \<open>QReaderException\<close>.
\<close>

definition sendSync ::
  "env \<Rightarrow> string \<Rightarrow> pyobj list \<Rightarrow> bool option \<Rightarrow> connection \<Rightarrow> world
     \<Rightarrow> (error + pyobj) \<times> connection \<times> world" where
  "sendSync env q parameters kw c w =
     (case query env SYNC q parameters kw c w of
        (Inl e, c1, w1) \<Rightarrow> (Inl e, c1, w1)
      | (Inr _, c1, w1) \<Rightarrow>
          (case receive env False kw c1 w1 of
             (Inl e, c2, w2) \<Rightarrow> (Inl e, c2, w2)
           | (Inr (Data d), c2, w2) \<Rightarrow> (Inl AttributeError, c2, w2)
           | (Inr (Message response), c2, w2) \<Rightarrow>
               (if msg_type response = RESPONSE then (Inr (msg_data response), c2, w2)
                else
                  (case writer c2 of
                     None \<Rightarrow> (Inl AttributeError, c2, w2)
                   | Some wr \<Rightarrow>
                       (let coroutine =
                              qwriter_write env wr
                                (QException ''nyi: qPython expected response message'')
                                (if msg_type response = ASYNC then ASYNC else RESPONSE) None
                        in (Inl QReaderException, c2, w2))))))"

text \<open>\<open>sendAsync\<close>: the query is sent with type ASYNC, and nothing is read.\<close>

definition sendAsync ::
  "env \<Rightarrow> string \<Rightarrow> pyobj list \<Rightarrow> bool option \<Rightarrow> connection \<Rightarrow> world
     \<Rightarrow> (error + unit) \<times> connection \<times> world" where
  "sendAsync env q parameters kw c w = query env ASYNC q parameters kw c w"

section \<open>A connection as constructed, and a test harness\<close>

text \<open>
  \<open>__init__\<close>: the two stream handles start as \<open>None\<close>; the other fields are the
  arguments, kept by the base class.
\<close>

definition new_connection ::
  "string option \<Rightarrow> int \<Rightarrow> string option \<Rightarrow> string option \<Rightarrow> (string \<Rightarrow> error + byte list)
     \<Rightarrow> int \<Rightarrow> options \<Rightarrow> connection" where
  "new_connection h p u pw enc max_version opts =
     \<lparr>host = h, port = p, username = u, password = pw, encoding = enc,
      MAX_PROTOCOL_VERSION = max_version, protocol_version = None, conn_options = opts,
      s_reader = None, s_writer = None, writer = None, reader = None\<rparr>"

text \<open>The default text codec, \<open>latin-1\<close>: one byte for each character.\<close>

definition latin1 :: "string \<Rightarrow> error + byte list" where
  "latin1 s = Inr (map (\<lambda>ch. (of_char ch :: byte)) s)"

text \<open>
  The connection of \<open>samples/asyncio_query.py\<close>: host \<open>localhost\<close>, port 5000, no
  credentials; the client offers protocol version 6.
\<close>

definition sample_conn :: connection where
  "sample_conn = new_connection (Some ''localhost'') 5000 None None latin1 6 \<lparr>raw = False\<rparr>"

text \<open>A world in which no transport exists yet and the peers of \<open>net\<close> are to come.\<close>

definition fresh_world :: "byte list list option list \<Rightarrow> world" where
  "fresh_world net = \<lparr>transports = [], network = net\<rparr>"

text \<open>
  A stub of the collaborators for running the engine on concrete bytes: a little-endian
  host, a frame of header and payload for a string or for bytes, a decoder that returns
  the rest of the buffer as bytes, and a kernel that cuts its input to the expected size.
\<close>

definition le32 :: "nat \<Rightarrow> byte list" where
  "le32 n = [of_nat n, of_nat (n div 256), of_nat (n div 65536), of_nat (n div 16777216)]"

fun stub_payload :: "pyobj \<Rightarrow> byte list" where
  "stub_payload (PyStr s) = map (\<lambda>ch. (of_char ch :: byte)) s"
| "stub_payload (PyBytes d) = d"
| "stub_payload v = []"

definition stub_env :: env where
  "stub_env =
     \<lparr>little_host = True,
      signed_byte = True,
      serialize = (\<lambda>version data message_type kwargs.
         Inr ([1, word_of_int message_type, 0, 0] @ le32 (8 + length (stub_payload data))
              @ stub_payload data)),
      read_object = (\<lambda>b opts. Inr (PyBytes (drop (position b) (buf_data b)))),
      uncompress = (\<lambda>d n. Inr (take (nat n) d))\<rparr>"

text \<open>
  The sample connection and the world after \<open>open\<close> against one peer that delivers
  \<open>chunks\<close>.
\<close>

definition session :: "byte list list \<Rightarrow> connection \<times> world" where
  "session chunks = snd (open_conn True sample_conn (fresh_world [Some chunks]))"

text \<open>A frame reader on the stream of transport 0, as \<open>open\<close> constructs it.\<close>

definition stream_reader :: qreader where
  "stream_reader = new_reader True (Some 0) \<lparr>raw = False\<rparr>"

text \<open>A world whose only transport is open and will deliver \<open>chunks\<close>.\<close>

definition delivering :: "byte list list \<Rightarrow> world" where
  "delivering chunks =
     \<lparr>transports = [\<lparr>sent = [], incoming = chunks, closing = False\<rparr>], network = []\<rparr>"

section \<open>Evaluating the model\<close>

lemmas handshake_defs =
  open_conn_def init_socket_def open_connection_def initialize_def initialize_retry_def
  bytes_of_def stream_write_def drain_def stream_read_def stream_close_def wait_closed_def
  set_protocol_version_def unpack_B_def close_def truthy_def or_empty_def new_reader_def

lemmas sample_defs = sample_conn_def new_connection_def fresh_world_def latin1_def session_def

text \<open>
  The sample connection after a handshake that the peer answers with the byte 3: both
  handles are transport 0, the negotiated version is 3, and the frame sent is the
  credentials \<open>:\<close> with the offered version 6 and a zero byte.
\<close>

lemma session_handshake:
  "session ([3] # chunks) =
     (sample_conn\<lparr>protocol_version := Some 3, s_reader := Some 0, s_writer := Some 0,
        writer := Some \<lparr>wr_stream = Some 0, wr_protocol_version = Some 3\<rparr>,
        reader := Some stream_reader\<rparr>,
      \<lparr>transports = [\<lparr>sent = [58, 6, 0], incoming = [] # chunks, closing = False\<rparr>],
       network = []\<rparr>)"
  by (simp add: handshake_defs sample_defs stream_reader_def)

section \<open>The handshake\<close>

text \<open>
  Claim C1. When the connection is not open yet, the host is set, a peer accepts the
  transport, the credentials can be encoded and the offered version is a byte, and the
  first read of one byte returns exactly one byte \<open>b\<close>, then \<open>open\<close> succeeds: the
  frame sent is the credentials, the offered version and a zero byte, the negotiated
  protocol version is the smaller of \<open>b\<close> and the offered version, and the writer and the
  reader are bound to the new stream.
\<close>

theorem handshake_one_byte:
  assumes "s_writer c = None" and "truthy (host c)"
    and "network w = Some chunks # rest"
    and "read_chunks 1 chunks = ([b], chunks')"
    and "encoding c (or_empty (username c) @ '':'' @ or_empty (password c)) = Inr creds"
    and "0 \<le> MAX_PROTOCOL_VERSION c" and "MAX_PROTOCOL_VERSION c < 256"
  shows "open_conn lh c w =
      (Inr (),
       c\<lparr>protocol_version := Some (min (uint b) (MAX_PROTOCOL_VERSION c)),
         s_reader := Some (length (transports w)),
         s_writer := Some (length (transports w)),
         writer := Some \<lparr>wr_stream = Some (length (transports w)),
                         wr_protocol_version = Some (min (uint b) (MAX_PROTOCOL_VERSION c))\<rparr>,
         reader := Some (new_reader lh (Some (length (transports w))) (conn_options c))\<rparr>,
       \<lparr>transports = transports w @
          [\<lparr>sent = creds @ [word_of_int (MAX_PROTOCOL_VERSION c), 0],
            incoming = chunks', closing = False\<rparr>],
        network = rest\<rparr>)"
  using assms
  by (simp add: open_conn_def init_socket_def open_connection_def initialize_def bytes_of_def
      stream_write_def drain_def stream_read_def set_protocol_version_def unpack_B_def Let_def)

theorem handshake_one_byte_witness:
  "s_writer sample_conn = None \<and> truthy (host sample_conn)
   \<and> read_chunks 1 [[3]] = ([3], [[]])
   \<and> fst (open_conn True sample_conn (fresh_world [Some [[3]]])) = Inr ()
   \<and> protocol_version (fst (snd (open_conn True sample_conn (fresh_world [Some [[3]]]))))
       = Some 3
   \<and> sent (transports (snd (snd (open_conn True sample_conn (fresh_world [Some [[3]]])))) ! 0)
       = [58, 6, 0]"
  using handshake_one_byte
    [of sample_conn "fresh_world [Some [[3]]]" "[[3]]" "[]" 3 "[[]]" "[58]" True]
  by (simp add: sample_defs truthy_def or_empty_def)

text \<open>
  Whenever the first read of the handshake returns anything but one byte, the retry stops
  at its first statement: the transport is closed, and awaiting the \<open>None\<close> that
  \<open>close()\<close> returned raises \<open>TypeError\<close>. The handles stay as they were, and nothing
  is written after the first frame.
\<close>

lemma initialize_no_response:
  assumes "s_writer c = Some h" and "s_reader c = Some h" and "h < length (transports w)"
    and "\<not> closing (transports w ! h)"
    and "encoding c (or_empty (username c) @ '':'' @ or_empty (password c)) = Inr creds"
    and "0 \<le> MAX_PROTOCOL_VERSION c" and "MAX_PROTOCOL_VERSION c < 256"
    and "read_chunks 1 (incoming (transports w ! h)) = (response, chunks')"
    and "length response \<noteq> 1"
  shows "initialize c w =
     (Inl TypeError, c,
      w\<lparr>transports := (transports w)[h := (transports w ! h)
          \<lparr>sent := sent (transports w ! h) @ creds @ [word_of_int (MAX_PROTOCOL_VERSION c), 0],
           incoming := chunks', closing := True\<rparr>]\<rparr>)"
  using assms
  by (simp add: initialize_def initialize_retry_def bytes_of_def
      stream_write_def drain_def stream_read_def stream_close_def Let_def)

text \<open>
  Claim C2 (the code departs from it). The first peer closes without a response; a second
  peer would answer the legacy frame with the byte 3. \<open>open\<close> does not succeed: it
  raises \<open>TypeError\<close> after closing the first transport. The transport is not
  established again (the second peer is still to come), and no legacy frame is sent.
\<close>

theorem fallback_raises_TypeError:
  "open_conn True sample_conn (fresh_world [Some [], Some [[3]]]) =
     (Inl TypeError,
      sample_conn\<lparr>s_reader := Some 0, s_writer := Some 0\<rparr>,
      \<lparr>transports = [\<lparr>sent = [58, 6, 0], incoming = [], closing = True\<rparr>],
       network = [Some [[3]]]\<rparr>)"
  by (simp add: handshake_defs sample_defs)

text \<open>
  Claim C3 (the code departs from it). Both peers close without a response. \<open>open\<close>
  fails, but with \<open>TypeError\<close> and not with \<open>QAuthenticationException\<close>, and the second
  attempt is never made; the transport has been closed, but the writer handle is still
  set, so \<open>is_connected\<close> is true afterwards.
\<close>

theorem rejected_handshake_stays_connected:
  "fst (open_conn True sample_conn (fresh_world [Some [], Some []])) = Inl TypeError
   \<and> is_connected (fst (snd (open_conn True sample_conn (fresh_world [Some [], Some []]))))
   \<and> snd (snd (open_conn True sample_conn (fresh_world [Some [], Some []]))) =
       \<lparr>transports = [\<lparr>sent = [58, 6, 0], incoming = [], closing = True\<rparr>],
        network = [Some []]\<rparr>"
  by (simp add: handshake_defs sample_defs is_connected_def)

text \<open>
  Claim C10. When the transport cannot be established, \<open>_init_socket\<close> resets both
  handles to \<open>None\<close> and raises the error again; \<open>open\<close> on a connection that is not
  open fails with that error, \<open>is_connected\<close> is false afterwards, and a connection
  whose reader handle was \<open>None\<close> as well is unchanged.
\<close>

theorem open_transport_failure:
  assumes "s_writer c = None" and "truthy (host c)"
    and "open_connection w = (Inl e, w')"
  shows "init_socket c w = (Inl e, c\<lparr>s_reader := None, s_writer := None\<rparr>, w')
       \<and> open_conn lh c w = (Inl e, c\<lparr>s_reader := None, s_writer := None\<rparr>, w')
       \<and> \<not> is_connected (c\<lparr>s_reader := None, s_writer := None\<rparr>)
       \<and> (s_reader c = None \<longrightarrow> c\<lparr>s_reader := None, s_writer := None\<rparr> = c)"
  using assms by (simp add: open_conn_def init_socket_def is_connected_def)

theorem open_transport_failure_witness:
  "s_writer sample_conn = None \<and> truthy (host sample_conn)
   \<and> open_connection (fresh_world [None]) = (Inl OSError, fresh_world [])
   \<and> open_conn True sample_conn (fresh_world [None]) = (Inl OSError, sample_conn, fresh_world [])
   \<and> \<not> is_connected sample_conn"
  using open_transport_failure [of sample_conn "fresh_world [None]" OSError "fresh_world []" True]
  by (simp add: sample_defs open_connection_def truthy_def)

section \<open>Closing\<close>

text \<open>
  \<open>close\<close> assigns nothing to the connection: whatever the world, the connection after
  \<open>close\<close> is the connection before it, so \<open>is_connected\<close> does not change; and
  \<open>is_connected\<close> is true exactly when the writer handle is present.
\<close>

lemma close_keeps_handles:
  "fst (snd (close c w)) = c"
  by (simp add: close_def stream_close_def wait_closed_def split: option.split)

lemma is_connected_iff_handle:
  "is_connected c = (s_writer c \<noteq> None)"
  by (simp add: is_connected_def)

text \<open>
  Claim C4 (the code departs from it). The sample connection is opened and then closed.
  \<open>close\<close> succeeds and closes the transport, but the connection is left as it was:
  the writer handle is still transport 0 and \<open>is_connected\<close> is still true.
\<close>

theorem close_leaves_connected:
  "fst (open_conn True sample_conn (fresh_world [Some [[3]]])) = Inr ()
   \<and> close (fst (snd (open_conn True sample_conn (fresh_world [Some [[3]]]))))
            (snd (snd (open_conn True sample_conn (fresh_world [Some [[3]]])))) =
      (Inr (),
       fst (snd (open_conn True sample_conn (fresh_world [Some [[3]]]))),
       \<lparr>transports = [\<lparr>sent = [58, 6, 0], incoming = [[]], closing = True\<rparr>], network = []\<rparr>)
   \<and> is_connected (fst (snd (open_conn True sample_conn (fresh_world [Some [[3]]]))))
   \<and> s_writer (fst (snd (open_conn True sample_conn (fresh_world [Some [[3]]])))) = Some 0"
  by (simp add: handshake_defs sample_defs is_connected_def)

section \<open>Queries\<close>

text \<open>
  The two checks of \<open>query\<close>. Without a writer handle it fails with
  \<open>QConnectionException\<close>; with one, more than 8 parameters fail with
  \<open>QWriterException\<close>; in both cases the connection and the world are returned as they
  were, so nothing was written. With a writer handle and 8 parameters or fewer both
  checks pass: the outcome is that of the awaited write of the frame writer (or
  \<open>AttributeError\<close> when no frame writer is bound).
\<close>

lemma query_checks:
  "(\<not> is_connected c \<longrightarrow> query env ty q ps kw c w = (Inl QConnectionException, c, w))
   \<and> (is_connected c \<and> 8 < length ps \<longrightarrow>
        query env ty q ps kw c w = (Inl QWriterException, c, w))
   \<and> (is_connected c \<and> length ps \<le> 8 \<longrightarrow>
        query env ty q ps kw c w =
          (case writer c of
             None \<Rightarrow> (Inl AttributeError, c, w)
           | Some wr \<Rightarrow>
               (case qwriter_write env wr (if ps = [] then PyStr q else PyList (PyStr q # ps))
                       ty (Some (union_dict (conn_options c) kw)) w of
                  (Inl e, w1) \<Rightarrow> (Inl e, c, w1)
                | (Inr _, w1) \<Rightarrow> (Inr (), c, w1))))"
  by (auto simp add: query_def is_connected_def split: option.split)

lemma query_checks_example:
  "\<not> is_connected sample_conn
   \<and> query stub_env SYNC ''til 10'' [] None sample_conn (fresh_world []) =
       (Inl QConnectionException, sample_conn, fresh_world [])
   \<and> is_connected (fst (session [[3]]))
   \<and> query stub_env SYNC ''f'' (replicate 9 (PyInt 1)) None
         (fst (session [[3]])) (snd (session [[3]])) =
       (Inl QWriterException, fst (session [[3]]), snd (session [[3]]))
   \<and> query stub_env SYNC ''f'' (replicate 8 (PyInt 1)) None
         (fst (session [[3]])) (snd (session [[3]])) =
       (Inr (), fst (session [[3]]),
        \<lparr>transports = [\<lparr>sent = [58, 6, 0] @ [1, 1, 0, 0, 8, 0, 0, 0], incoming = [[]],
                         closing = False\<rparr>],
         network = []\<rparr>)"
  using query_checks [of sample_conn stub_env SYNC "''til 10''" "[]" None "fresh_world []"]
    query_checks [of "fst (session [[3]])" stub_env SYNC "''f''" "replicate 9 (PyInt 1)" None
       "snd (session [[3]])"]
    query_checks [of "fst (session [[3]])" stub_env SYNC "''f''" "replicate 8 (PyInt 1)" None
       "snd (session [[3]])"]
  by (simp add: session_handshake is_connected_def sample_conn_def new_connection_def
      qwriter_write_def stub_env_def stream_write_def drain_def le32_def SYNC_def)

text \<open>
  Claim C5 (the code departs from it). A connection that is not open is not always
  refused with \<open>QConnectionException\<close>, because the only test is for the writer handle,
  which is set before the handshake and never cleared. The sample connection is opened and
  closed: the handle is still there, the first check passes, the frame is handed to the
  closed transport, which drops it, and the flush raises \<open>ConnectionResetError\<close>. And
  after a handshake that failed (the peer closed without a response, and \<open>open\<close> raised
  \<open>TypeError\<close>) the handle is set but no frame writer is bound: \<open>query\<close> raises
  \<open>AttributeError\<close>.
\<close>

theorem query_after_close:
  "close (fst (session [[3]])) (snd (session [[3]])) =
     (Inr (), fst (session [[3]]),
      \<lparr>transports = [\<lparr>sent = [58, 6, 0], incoming = [[]], closing = True\<rparr>], network = []\<rparr>)
   \<and> query stub_env SYNC ''til 10'' [] None (fst (session [[3]]))
        (snd (snd (close (fst (session [[3]])) (snd (session [[3]]))))) =
     (Inl ConnectionResetError, fst (session [[3]]),
      \<lparr>transports = [\<lparr>sent = [58, 6, 0], incoming = [[]], closing = True\<rparr>], network = []\<rparr>)
   \<and> fst (open_conn True sample_conn (fresh_world [Some []])) = Inl TypeError
   \<and> fst (query stub_env SYNC ''til 10'' [] None (fst (session [])) (snd (session []))) =
     Inl AttributeError"
  by (simp add: session_handshake close_def stream_close_def wait_closed_def query_def
      qwriter_write_def stub_env_def le32_def stream_write_def drain_def union_dict_def
      sample_conn_def new_connection_def SYNC_def handshake_defs sample_defs Let_def)

text \<open>
  What \<open>sendSync\<close> does with the message it receives: the data of a RESPONSE is
  returned; for any other kind \<open>QReaderException\<close> is raised in the state in which
  \<open>receive\<close> left the connection and the world.
\<close>

lemma sendSync_response:
  assumes "query env SYNC q ps kw c w = (Inr (), c1, w1)"
    and "receive env False kw c1 w1 = (Inr (Message m), c2, w2)"
    and "msg_type m = RESPONSE"
  shows "sendSync env q ps kw c w = (Inr (msg_data m), c2, w2)"
  using assms by (simp add: sendSync_def)

lemma sendSync_unexpected_kind:
  assumes "query env SYNC q ps kw c w = (Inr (), c1, w1)"
    and "receive env False kw c1 w1 = (Inr (Message m), c2, w2)"
    and "msg_type m \<noteq> RESPONSE"
    and "writer c2 = Some wr"
  shows "sendSync env q ps kw c w = (Inl QReaderException, c2, w2)"
  using assms by (simp add: sendSync_def Let_def)

lemmas reader_defs =
  read_def read_header_def header_source_def read_data_def read_compressed_def read_bytes_def
  get_byte_def get_uint_def get_long_def buffer_raw_def wrap_def stream_read_def
  unsigned_value_def signed_value_def

text \<open>
  Claim C6 (the code departs from it). After the handshake the peer sends an ASYNC
  message (kind 0, size 9, payload 42) where a response is expected. The query alone puts
  the handshake frame and the query frame on the stream. \<open>sendSync\<close> raises
  \<open>QReaderException\<close>, and the bytes sent are still those two frames: no exception
  value is written back to the peer.
\<close>

theorem unexpected_message_not_answered:
  "query stub_env SYNC ''til 10'' [] None
       (fst (session [[3], [1, 0, 0, 0, 9, 0, 0, 0, 42]]))
       (snd (session [[3], [1, 0, 0, 0, 9, 0, 0, 0, 42]])) =
     (Inr (), fst (session [[3], [1, 0, 0, 0, 9, 0, 0, 0, 42]]),
      \<lparr>transports =
         [\<lparr>sent = [58, 6, 0, 1, 1, 0, 0, 14, 0, 0, 0, 116, 105, 108, 32, 49, 48],
           incoming = [[], [1, 0, 0, 0, 9, 0, 0, 0, 42]], closing = False\<rparr>],
       network = []\<rparr>)
   \<and> fst (sendSync stub_env ''til 10'' [] None
       (fst (session [[3], [1, 0, 0, 0, 9, 0, 0, 0, 42]]))
       (snd (session [[3], [1, 0, 0, 0, 9, 0, 0, 0, 42]]))) = Inl QReaderException
   \<and> snd (snd (sendSync stub_env ''til 10'' [] None
       (fst (session [[3], [1, 0, 0, 0, 9, 0, 0, 0, 42]]))
       (snd (session [[3], [1, 0, 0, 0, 9, 0, 0, 0, 42]])))) =
      \<lparr>transports =
         [\<lparr>sent = [58, 6, 0, 1, 1, 0, 0, 14, 0, 0, 0, 116, 105, 108, 32, 49, 48],
           incoming = [[]], closing = False\<rparr>],
       network = []\<rparr>"
  by (simp add: session_handshake sendSync_def query_def receive_def qwriter_write_def
      union_dict_def stub_env_def le32_def stream_write_def drain_def reader_defs
      stream_reader_def new_reader_def sample_conn_def new_connection_def
      SYNC_def ASYNC_def RESPONSE_def Let_def)

section \<open>The header\<close>

text \<open>The value of one byte, signed and unsigned, in either byte order.\<close>

lemma sint_byte_mod: "sint (b :: byte) = (uint b + 128) mod 256 - 128"
  by (simp add: sint_uint signed_take_bit_eq_take_bit_shift take_bit_eq_mod)

lemma signed_byte_eq: "sint (b :: byte) = (if uint b < 128 then uint b else uint b - 256)"
proof (cases "uint b < 128")
  case True
  have "0 \<le> uint b" by simp
  with True have "(uint b + 128) mod 256 = uint b + 128"
    by (simp add: mod_pos_pos_trivial)
  with True show ?thesis by (simp add: sint_byte_mod)
next
  case False
  have "uint b < 256" using uint_lt2p [of b] by simp
  with False have "(uint b - 128) mod 256 = uint b - 128"
    by (simp add: mod_pos_pos_trivial)
  moreover have "uint b + 128 = uint b - 128 + 256" by simp
  ultimately have "(uint b + 128) mod 256 = uint b - 128"
    by (simp only: mod_add_self2)
  with False show ?thesis by (simp add: sint_byte_mod)
qed

lemma signed_value_byte: "signed_value e [b] = sint (b :: byte)"
  by (cases e) (simp_all add: signed_value_def unsigned_value_def Let_def signed_byte_eq)

lemma unsigned_value_byte: "unsigned_value e [b] = uint (b :: byte)"
  by (cases e) (simp_all add: unsigned_value_def)

lemma sint_eq_1: "(sint (b :: byte) = 1) = (b = 1)"
  using word_eq_iff_signed by fastforce

lemma uint_eq_1: "(uint (b :: byte) = 1) = (b = 1)"
  using word_eq_iff_unsigned by fastforce

text \<open>The header is decoded from the buffer that wraps its eight bytes.\<close>

lemma parse_header:
  assumes "E = (if b0 = 1 then Little else Big)"
    and "v1 = (if signed_byte env then sint b1 else uint b1)"
    and "v2 = (if signed_byte env then sint b2 else uint b2)"
    and "v3 = (if signed_byte env then sint b3 else uint b3)"
    and "header_source source r w =
          (Inr (wrap (b0 # b1 # b2 # b3 # b4 # b5 # b6 # b7 # rest) (buffer r)), w1)"
  shows "read_header env source r w =
     (Inr \<lparr>msg_data = PyNone, msg_type = v1,
           msg_size = unsigned_value E [b4, b5, b6, b7] + push_bit 32 v3,
           msg_compression_mode = v2\<rparr>,
      r\<lparr>buffer := \<lparr>buf_data = b0 # b1 # b2 # b3 # b4 # b5 # b6 # b7 # rest, position = 8,
                    endianness = E\<rparr>,
        is_native := (E = (if little_host env then Little else Big))\<rparr>,
      w1)"
  using assms
  by (simp add: read_header_def get_byte_def get_uint_def buffer_raw_def wrap_def
      signed_value_byte unsigned_value_byte sint_eq_1 uint_eq_1 Let_def)

text \<open>
  Claim C7. For a header of eight bytes \<open>b0 ... b7\<close>, read from the stream or standing
  at the start of the caller's buffer, \<open>read_header\<close> sets the byte order to
  little-endian exactly when \<open>b0\<close> is 1 and to big-endian otherwise, and the size of the
  message is the 4-byte field \<open>b4 ... b7\<close>, read as an unsigned integer in that byte
  order, plus the value of the size-extension byte \<open>b3\<close> shifted left by 32 bits. The
  value of a single byte is its signed or its unsigned value, as the buffer reads bytes.
\<close>

theorem read_header_decodes:
  assumes "E = (if b0 = 1 then Little else Big)"
    and "v1 = (if signed_byte env then sint b1 else uint b1)"
    and "v2 = (if signed_byte env then sint b2 else uint b2)"
    and "v3 = (if signed_byte env then sint b3 else uint b3)"
    and "(rd_stream r = Some h \<and> read_bytes 8 r w = (Inr [b0, b1, b2, b3, b4, b5, b6, b7], w1)
          \<and> rest = [])
         \<or> (rd_stream r = None \<and> source = Some (b0 # b1 # b2 # b3 # b4 # b5 # b6 # b7 # rest)
          \<and> w1 = w)"
  shows "read_header env source r w =
     (Inr \<lparr>msg_data = PyNone, msg_type = v1,
           msg_size = unsigned_value E [b4, b5, b6, b7] + push_bit 32 v3,
           msg_compression_mode = v2\<rparr>,
      r\<lparr>buffer := \<lparr>buf_data = b0 # b1 # b2 # b3 # b4 # b5 # b6 # b7 # rest, position = 8,
                    endianness = E\<rparr>,
        is_native := (E = (if little_host env then Little else Big))\<rparr>,
      w1)"
proof -
  from assms(5)
  have "header_source source r w =
      (Inr (wrap (b0 # b1 # b2 # b3 # b4 # b5 # b6 # b7 # rest) (buffer r)), w1)"
    by (auto simp add: header_source_def)
  with assms(1-4) show ?thesis
    by (rule parse_header)
qed

theorem read_header_decodes_witness:
  "read_bytes 8 stream_reader (delivering [[1, 2, 0, 1, 16, 0, 0, 0]]) =
      (Inr [1, 2, 0, 1, 16, 0, 0, 0], delivering [[]])
   \<and> fst (read_header stub_env None stream_reader (delivering [[1, 2, 0, 1, 16, 0, 0, 0]])) =
      Inr \<lparr>msg_data = PyNone, msg_type = 2, msg_size = 16 + 4294967296,
           msg_compression_mode = 0\<rparr>
   \<and> endianness (buffer (fst (snd (read_header stub_env None stream_reader
         (delivering [[1, 2, 0, 1, 16, 0, 0, 0]]))))) = Little"
  using read_header_decodes [of Little 1 2 stub_env 2 0 0 1 1 stream_reader 0
      "delivering [[1, 2, 0, 1, 16, 0, 0, 0]]" 16 0 0 0 "delivering [[]]" "[]" None]
  by (simp add: read_bytes_def stream_read_def stream_reader_def new_reader_def delivering_def
      stub_env_def unsigned_value_def)

section \<open>Byte acquisition\<close>

text \<open>
  On a stream, a request for no bytes returns the empty byte string and leaves the world
  as it was; a request for some bytes that the stream answers with none raises
  \<open>QReaderException\<close>.
\<close>

lemma read_bytes_zero:
  "rd_stream r = Some h \<Longrightarrow> read_bytes 0 r w = (Inr [], w)"
  by (simp add: read_bytes_def)

lemma read_bytes_exhausted:
  "rd_stream r = Some h \<Longrightarrow> n \<noteq> 0 \<Longrightarrow> fst (stream_read n h w) = [] \<Longrightarrow>
     fst (read_bytes n r w) = Inl QReaderException"
  by (cases "stream_read n h w") (simp add: read_bytes_def)

text \<open>
  Claim C9 (the code departs from it). Eight bytes are requested from a stream on which
  three bytes have arrived and five more are to come. \<open>_read_bytes\<close> returns the three
  bytes as its result: a read that is short but not empty is accepted.
\<close>

theorem short_read_accepted:
  "read_bytes 8 stream_reader (delivering [[1, 2, 3], [4, 5, 6, 7, 8]]) =
     (Inr [1, 2, 3], delivering [[], [4, 5, 6, 7, 8]])"
  by (simp add: read_bytes_def stream_read_def stream_reader_def new_reader_def delivering_def)

section \<open>The compression envelope\<close>

text \<open>
  A compressed message whose envelope header and block the stream delivers whole: the
  header of 4 bytes in mode 1 and of 8 bytes otherwise gives the length field; when the
  field less 8 is not positive \<open>QReaderException\<close> is raised, and otherwise the kernel
  is called with the block and that size.
\<close>

lemma read_compressed_stream:
  assumes "rd_stream r = Some h"
    and "hl = (if mode = 1 then 4 else 8)"
    and "read_bytes hl r w = (Inr envelope, w1)"
    and "int (length envelope) = hl"
    and "field = (if mode = 1 then unsigned_value (endianness (buffer r)) envelope
                  else signed_value (endianness (buffer r)) envelope)"
    and "read_bytes (message_size - (8 + hl)) r w1 = (Inr block, w2)"
  shows "read_compressed env message_size mode r w =
     (if field - 8 \<le> 0 then
        (Inl QReaderException,
         r\<lparr>buffer := wrap envelope (buffer r)\<lparr>position := nat hl\<rparr>\<rparr>, w2)
      else case uncompress env block (field - 8) of
             Inl e \<Rightarrow>
               (Inl e, r\<lparr>buffer := wrap envelope (buffer r)\<lparr>position := nat hl\<rparr>\<rparr>, w2)
           | Inr raw_data \<Rightarrow> (Inr raw_data, r\<lparr>buffer := wrap raw_data (buffer r)\<rparr>, w2))"
  using assms
  by (cases "mode = 1")
     (simp_all add: read_compressed_def get_uint_def get_long_def buffer_raw_def wrap_def Let_def
        split: sum.split)

text \<open>The same without a stream, the envelope and the block standing in the buffer.\<close>

lemma buffer_raw_prefix:
  assumes "drop (position b) (buf_data b) = xs @ ys" and "int (length xs) = n"
    and "position b \<le> length (buf_data b)"
  shows "buffer_raw n b = (Inr xs, b\<lparr>position := position b + length xs\<rparr>)"
proof -
  have "length (drop (position b) (buf_data b)) = length xs + length ys"
    using assms(1) by simp
  with assms(3) have "position b + length xs \<le> length (buf_data b)"
    by simp
  moreover have "take (length xs) (drop (position b) (buf_data b)) = xs"
    using assms(1) by simp
  ultimately show ?thesis
    using assms(2) by (auto simp add: buffer_raw_def)
qed

lemma read_compressed_buffer:
  assumes "rd_stream r = None"
    and "hl = (if mode = 1 then 4 else 8)"
    and "drop (position (buffer r)) (buf_data (buffer r)) = envelope @ block @ rest"
    and "int (length envelope) = hl"
    and "int (length block) = message_size - (8 + hl)"
    and "position (buffer r) \<le> length (buf_data (buffer r))"
    and "field = (if mode = 1 then unsigned_value (endianness (buffer r)) envelope
                  else signed_value (endianness (buffer r)) envelope)"
  shows "read_compressed env message_size mode r w =
     (if field - 8 \<le> 0 then
        (Inl QReaderException,
         r\<lparr>buffer := (buffer r)\<lparr>position := position (buffer r) + length envelope + length block\<rparr>\<rparr>,
         w)
      else case uncompress env block (field - 8) of
             Inl e \<Rightarrow>
               (Inl e,
                r\<lparr>buffer := (buffer r)\<lparr>position := position (buffer r) + length envelope + length block\<rparr>\<rparr>,
                w)
           | Inr raw_data \<Rightarrow> (Inr raw_data, r\<lparr>buffer := wrap raw_data (buffer r)\<rparr>, w))"
proof -
  let ?b1 = "(buffer r)\<lparr>position := position (buffer r) + length envelope\<rparr>"
  have e: "buffer_raw hl (buffer r) = (Inr envelope, ?b1)"
    using assms(3,4,6) by (rule buffer_raw_prefix)
  have "length (drop (position (buffer r)) (buf_data (buffer r))) =
      length envelope + length block + length rest"
    using assms(3) by simp
  with assms(6) have p: "position ?b1 \<le> length (buf_data ?b1)"
    by simp
  have "drop (position ?b1) (buf_data ?b1) = block @ rest"
    using assms(3) by (simp add: add.commute [of "position (buffer r)"] drop_drop [symmetric])
  then have k: "buffer_raw (message_size - (8 + hl)) ?b1 =
      (Inr block, ?b1\<lparr>position := position ?b1 + length block\<rparr>)"
    using assms(5) p by (rule buffer_raw_prefix)
  show ?thesis
    using assms(1,2,7) e k
    by (cases "mode = 1")
       (simp_all add: read_compressed_def get_uint_def get_long_def wrap_def Let_def
          split: sum.split)
qed

text \<open>
  Claim C8 (the code departs from it). A message of size 16 in compression mode 1: the
  4-byte header holds the field 12, so the uncompressed size is 4, and the compressed
  block is the \<open>16 - 8 - 4 = 4\<close> bytes 1, 2, 3, 4. The stream delivers the header with
  the first two bytes of the block, and the other two later. \<open>read_data\<close> hands the
  kernel the two bytes that had arrived, not the block of four, and leaves the other two
  on the stream; the stub kernel, which cuts its input to the expected size, returns
  those two bytes.
\<close>

theorem compressed_block_short:
  "read_data stub_env 16 1 \<lparr>raw = True\<rparr> stream_reader
       (delivering [[12, 0, 0, 0, 1, 2], [3, 4]]) =
     (Inr (PyBytes [1, 2]),
      stream_reader\<lparr>buffer := \<lparr>buf_data = [1, 2], position = 0, endianness = Little\<rparr>,
                    rd_options := \<lparr>raw = True\<rparr>\<rparr>,
      delivering [[], [3, 4]])"
  by (simp add: reader_defs stream_reader_def new_reader_def delivering_def stub_env_def Let_def)

text \<open>Delivered whole, the same message gives the kernel the block of four bytes.\<close>

lemma compressed_block_whole:
  "read_data stub_env 16 1 \<lparr>raw = True\<rparr> stream_reader
       (delivering [[12, 0, 0, 0, 1, 2, 3, 4]]) =
     (Inr (PyBytes [1, 2, 3, 4]),
      stream_reader\<lparr>buffer := \<lparr>buf_data = [1, 2, 3, 4], position = 0, endianness = Little\<rparr>,
                    rd_options := \<lparr>raw = True\<rparr>\<rparr>,
      delivering [[]])"
  by (simp add: reader_defs stream_reader_def new_reader_def delivering_def stub_env_def Let_def)

end
